theory Spec2Isabelle
  imports Main "HOL-Library.Sublist"
begin

unbundle bit_operations_syntax

section \<open>Data model of check.py\<close>

text \<open>
  A Python \<open>str\<close> is a sequence of Unicode code points and a \<open>bytes\<close> object a
  sequence of byte values; both are lists of naturals here. \<open>lit\<close> turns an ASCII
  literal of the source into its code points. Where the program holds a value that is
  the one or the other at run time, the value carries its kind.
\<close>

type_synonym pystr = "nat list"

type_synonym pybytes = "nat list"

definition lit :: "string \<Rightarrow> pystr" where
  "lit s = map of_char s"

datatype pyval = Str pystr | Bytes pybytes

text \<open>
  The exceptions that reach the code: those of \<open>subprocess.run\<close> (the timeout and the
  failures to launch), those of the codecs, those of \<open>re\<close> (a pattern that does not
  compile, and \<open>TypeError\<close> for a text pattern applied to bytes) and a warning that the
  warning filters turn into an exception. \<open>TimeoutExpired\<close> carries the output captured
  until the child was killed: \<open>None\<close>, or what was read from the pipe, which on POSIX
  is bytes also under \<open>text=True\<close> and on Windows is text.
\<close>

datatype py_exn =
    TimeoutExpired "pyval option" "pyval option"
  | FileNotFoundError pystr
  | PermissionError pystr
  | OSError pystr
  | UnicodeDecodeError
  | UnicodeEncodeError
  | re_error pystr
  | TypeError
  | DeprecationWarning pystr

text \<open>What \<open>subprocess.run\<close> returns: the exit code and the two captured streams.\<close>

datatype CompletedProcess = CompletedProcess int pystr pystr

text \<open>
  The dataclass declares \<open>stdout: str\<close>, which Python does not enforce: the timeout
  branch of \<open>run_java\<close> stores what the exception carries. Every branch builds a text
  for \<open>stderr\<close>.
\<close>

record RunResult =
  ok :: bool
  returncode :: int
  stdout :: pyval
  stderr :: pystr

text \<open>
  The library the program calls, as parameters of the model: the process call; the
  rendering of the timeout (a float) inside an f-string; the regex engine (compiling a
  pattern under flag bits, and matching a compiled pattern at one position of a
  string); the table of Unicode character names; and the warnings: what the warning
  filters do with the \<open>DeprecationWarning\<close> of the decoder, given its message (the text
  written to \<open>sys.stderr\<close>, empty when the warning is dropped, or the exception raised
  in its place), and the text that warnings write to \<open>sys.stderr\<close> while \<open>re\<close> compiles
  a pattern.
\<close>

record ('rx, 't) library =
  subprocess_run :: "pystr list \<Rightarrow> pystr \<Rightarrow> 't \<Rightarrow> py_exn + CompletedProcess"
  format_float :: "'t \<Rightarrow> pystr"
  re_compile :: "pystr \<Rightarrow> nat \<Rightarrow> py_exn + 'rx"
  rx_match_at :: "'rx \<Rightarrow> pystr \<Rightarrow> nat \<Rightarrow> bool"
  unicode_name :: "pybytes \<Rightarrow> nat option"
  show_warning :: "pystr \<Rightarrow> py_exn + pystr"
  re_warning :: "pystr \<Rightarrow> nat \<Rightarrow> pystr"

section \<open>Text of a value\<close>

text \<open>
  \<open>str(x)\<close>, which \<open>print\<close> and an f-string apply: a text is itself, bytes are their
  \<open>repr\<close>. The \<open>repr\<close> of bytes is \<open>b'...'\<close>, in double quotes when the bytes hold a
  single quote and no double quote, with the quote and the backslash escaped, tab,
  newline and carriage return as \<open>\t\<close>, \<open>\n\<close>, \<open>\r\<close>, and every other byte outside
  the printable ASCII range as \<open>\xhh\<close>. (This is the interpreter under its default
  options; under \<open>-b\<close> the conversion of bytes warns in addition.)
\<close>

definition bytes_quote :: "pybytes \<Rightarrow> nat" where
  "bytes_quote b = (if 0x27 \<in> set b \<and> 0x22 \<notin> set b then 0x22 else 0x27)"

definition hex_char :: "nat \<Rightarrow> nat" where
  "hex_char d = (if d < 10 then 0x30 + d else 0x61 + (d - 10))"

definition repr_byte :: "nat \<Rightarrow> nat \<Rightarrow> pystr" where
  "repr_byte quote c =
     (if c = quote \<or> c = 0x5C then [0x5C, c]
      else if c = 0x09 then [0x5C, 0x74]
      else if c = 0x0A then [0x5C, 0x6E]
      else if c = 0x0D then [0x5C, 0x72]
      else if c < 0x20 \<or> 0x7F \<le> c then [0x5C, 0x78, hex_char (c div 16), hex_char (c mod 16)]
      else [c])"

definition bytes_repr :: "pybytes \<Rightarrow> pystr" where
  "bytes_repr b =
     (let quote = bytes_quote b in [0x62, quote] @ concat (map (repr_byte quote) b) @ [quote])"

fun py_str :: "pyval \<Rightarrow> pystr" where
  "py_str (Str s) = s"
| "py_str (Bytes b) = bytes_repr b"

section \<open>Decoding of the input argument\<close>

text \<open>
  Line 109: \<open>args.input.encode("utf-8").decode("unicode_escape")\<close>. The two codecs
  are the library's; they are written out here as the library defines them.
  \<open>utf-8\<close> encodes each code point in one to four bytes and refuses the surrogates.
\<close>

definition utf8_encode_char :: "nat \<Rightarrow> py_exn + pybytes" where
  "utf8_encode_char ch =
     (if ch < 0x80 then Inr [ch]
      else if ch < 0x800 then Inr [0xC0 + ch div 64, 0x80 + ch mod 64]
      else if 0xD800 \<le> ch \<and> ch \<le> 0xDFFF then Inl UnicodeEncodeError
      else if ch < 0x10000 then
        Inr [0xE0 + ch div 4096, 0x80 + ch div 64 mod 64, 0x80 + ch mod 64]
      else
        Inr [0xF0 + ch div 262144, 0x80 + ch div 4096 mod 64, 0x80 + ch div 64 mod 64,
             0x80 + ch mod 64])"

fun utf8_encode :: "pystr \<Rightarrow> py_exn + pybytes" where
  "utf8_encode [] = Inr []"
| "utf8_encode (ch # s) =
     (case utf8_encode_char ch of
        Inl e \<Rightarrow> Inl e
      | Inr bs \<Rightarrow> (case utf8_encode s of Inl e \<Rightarrow> Inl e | Inr r \<Rightarrow> Inr (bs @ r)))"

text \<open>
  \<open>unicode_escape\<close> reads the bytes from the left. A byte other than the backslash
  is written as the code point of the same value (Latin-1). After a backslash come, in
  the decoder's order: the line continuation, the one-character escapes, up to three
  octal digits, the hexadecimal escapes \<open>\x\<close>, \<open>\u\<close>, \<open>\U\<close> with 2, 4 and 8
  digits, the named escape \<open>\N{...}\<close>, and any other character, which is kept
  together with its backslash. With the default error handler \<open>strict\<close> every
  malformed escape raises \<open>UnicodeDecodeError\<close>.

  The decoder also remembers the first invalid escape it met: a backslash before a
  character that starts no escape, or an octal escape above \<open>\377\<close>. When the decoding
  has succeeded, it raises one \<open>DeprecationWarning\<close> for that escape. The result of
  the model is the text together with that first invalid escape.
\<close>

datatype invalid_escape = InvalidEscape nat | InvalidOctal pybytes

type_synonym decoded = "py_exn + pystr \<times> invalid_escape option"

definition write_char :: "nat \<Rightarrow> decoded \<Rightarrow> decoded" where
  "write_char ch r = (case r of Inl e \<Rightarrow> Inl e | Inr (t, w) \<Rightarrow> Inr (ch # t, w))"

definition first_invalid :: "invalid_escape \<Rightarrow> decoded \<Rightarrow> decoded" where
  "first_invalid x r = (case r of Inl e \<Rightarrow> Inl e | Inr (t, w) \<Rightarrow> Inr (t, Some x))"

text \<open>
  The text \<open>p\<close> and the invalid escape \<open>w\<close> of what was read, before the result of
  decoding what follows.
\<close>

definition then_decode :: "pystr \<Rightarrow> invalid_escape option \<Rightarrow> decoded \<Rightarrow> decoded" where
  "then_decode p w r =
     (case r of
        Inl e \<Rightarrow> Inl e
      | Inr (t, w') \<Rightarrow> Inr (p @ t, case w of None \<Rightarrow> w' | Some x \<Rightarrow> Some x))"

definition simple_escape :: "nat \<Rightarrow> nat option" where
  "simple_escape c =
     (if c = 0x5C then Some 0x5C
      else if c = 0x27 then Some 0x27
      else if c = 0x22 then Some 0x22
      else if c = 0x62 then Some 8
      else if c = 0x66 then Some 12
      else if c = 0x74 then Some 9
      else if c = 0x6E then Some 10
      else if c = 0x72 then Some 13
      else if c = 0x76 then Some 11
      else if c = 0x61 then Some 7
      else None)"

definition is_octal :: "nat \<Rightarrow> bool" where
  "is_octal c = (0x30 \<le> c \<and> c \<le> 0x37)"

definition octal_more :: "pybytes \<Rightarrow> nat" where
  "octal_more s = length (takeWhile is_octal (take 2 s))"

definition octal_value :: "pybytes \<Rightarrow> nat" where
  "octal_value ds = foldl (\<lambda>ch d. ch * 8 + (d - 0x30)) 0 ds"

definition hex_digit :: "nat \<Rightarrow> nat option" where
  "hex_digit c =
     (if 0x30 \<le> c \<and> c \<le> 0x39 then Some (c - 0x30)
      else if 0x61 \<le> c \<and> c \<le> 0x66 then Some (c - (0x61 - 10))
      else if 0x41 \<le> c \<and> c \<le> 0x46 then Some (c - (0x41 - 10))
      else None)"

fun hex_value :: "nat \<Rightarrow> pybytes \<Rightarrow> nat option" where
  "hex_value ch [] = Some ch"
| "hex_value ch (c # s) =
     (case hex_digit c of None \<Rightarrow> None | Some d \<Rightarrow> hex_value (ch * 16 + d) s)"

definition hexescape :: "nat \<Rightarrow> pybytes \<Rightarrow> nat option" where
  "hexescape count s =
     (if length s < count then None
      else case hex_value 0 (take count s) of
             None \<Rightarrow> None
           | Some ch \<Rightarrow> (if ch > 0x10FFFF then None else Some ch))"

definition named_escape :: "(pybytes \<Rightarrow> nat option) \<Rightarrow> pybytes \<Rightarrow> (nat \<times> nat) option" where
  "named_escape names s =
     (case s of
        [] \<Rightarrow> None
      | c # s' \<Rightarrow>
          if c \<noteq> 0x7B then None
          else let name = takeWhile (\<lambda>b. b \<noteq> 0x7D) s' in
            if length name = length s' then None
            else if name = [] then None
            else (case names name of
                    None \<Rightarrow> None
                  | Some ch \<Rightarrow> Some (ch, length name + 2)))"

fun unicode_escape_decode :: "(pybytes \<Rightarrow> nat option) \<Rightarrow> pybytes \<Rightarrow> decoded" where
  "unicode_escape_decode names [] = Inr ([], None)"
| "unicode_escape_decode names (c # s) =
     (if c \<noteq> 0x5C then write_char c (unicode_escape_decode names s)
      else case s of
        [] \<Rightarrow> Inl UnicodeDecodeError
      | c # s \<Rightarrow>
          if c = 0x0A then unicode_escape_decode names s
          else (case simple_escape c of
            Some ch \<Rightarrow> write_char ch (unicode_escape_decode names s)
          | None \<Rightarrow>
              if is_octal c then
                (let k = octal_more s;
                     ch = octal_value (c # take k s);
                     r = write_char ch (unicode_escape_decode names (drop k s))
                 in if ch > 0xFF then first_invalid (InvalidOctal (c # take k s)) r else r)
              else if c = 0x78 \<or> c = 0x75 \<or> c = 0x55 then
                (let count = (if c = 0x78 then 2 else if c = 0x75 then 4 else 8) in
                 case hexescape count s of
                   None \<Rightarrow> Inl UnicodeDecodeError
                 | Some ch \<Rightarrow> write_char ch (unicode_escape_decode names (drop count s)))
              else if c = 0x4E then
                (case named_escape names s of
                   None \<Rightarrow> Inl UnicodeDecodeError
                 | Some (ch, n) \<Rightarrow> write_char ch (unicode_escape_decode names (drop n s)))
              else
                first_invalid (InvalidEscape c)
                  (write_char 0x5C (write_char c (unicode_escape_decode names s)))))"

definition decode_input :: "(pybytes \<Rightarrow> nat option) \<Rightarrow> pystr \<Rightarrow> decoded" where
  "decode_input names s =
     (case utf8_encode s of
        Inl e \<Rightarrow> Inl e
      | Inr bs \<Rightarrow> unicode_escape_decode names bs)"

text \<open>The message of the warning for the first invalid escape.\<close>

fun warning_message :: "invalid_escape \<Rightarrow> pystr" where
  "warning_message (InvalidEscape c) =
     lit ''invalid escape sequence '' @ [0x27, 0x5C, c, 0x27]"
| "warning_message (InvalidOctal ds) =
     lit ''invalid octal escape sequence '' @ [0x27, 0x5C] @ ds @ [0x27]"

text \<open>
  Line 109 as a whole: the decoded text and the text that the warning has written to
  \<open>sys.stderr\<close>, or the exception of a codec or of the warning.
\<close>

definition decode_argument :: "('rx, 't) library \<Rightarrow> pystr \<Rightarrow> py_exn + pystr \<times> pystr" where
  "decode_argument L s =
     (case decode_input (unicode_name L) s of
        Inl e \<Rightarrow> Inl e
      | Inr (stdin_text, None) \<Rightarrow> Inr (stdin_text, [])
      | Inr (stdin_text, Some x) \<Rightarrow>
          (case show_warning L (warning_message x) of
             Inl e \<Rightarrow> Inl e
           | Inr warned \<Rightarrow> Inr (stdin_text, warned)))"

section \<open>The process runner\<close>

text \<open>
  \<open>x or ""\<close> on the attribute of the exception: \<open>None\<close>, an empty text and empty
  bytes give the literal \<open>""\<close>, anything else is kept as it is.
\<close>

definition or_empty :: "pyval option \<Rightarrow> pyval" where
  "or_empty x =
     (case x of
        None \<Rightarrow> Str []
      | Some (Str s) \<Rightarrow> (if s = [] then Str [] else Str s)
      | Some (Bytes b) \<Rightarrow> (if b = [] then Str [] else Bytes b))"

definition run_java :: "('rx, 't) library \<Rightarrow> pystr list \<Rightarrow> pystr \<Rightarrow> 't \<Rightarrow> py_exn + RunResult" where
  "run_java L java_cmd stdin_text timeout_s =
     (case subprocess_run L java_cmd stdin_text timeout_s of
        Inr (CompletedProcess rc out err) \<Rightarrow>
          Inr \<lparr>ok = (rc = 0), returncode = rc, stdout = Str out, stderr = err\<rparr>
      | Inl (TimeoutExpired e_stdout e_stderr) \<Rightarrow>
          Inr \<lparr>ok = False, returncode = 124, stdout = or_empty e_stdout,
               stderr = lit ''Timed out after '' @ format_float L timeout_s @ lit ''s''
                        @ [10] @ py_str (or_empty e_stderr)\<rparr>
      | Inl (FileNotFoundError msg) \<Rightarrow>
          Inr \<lparr>ok = False, returncode = 127, stdout = Str [],
               stderr = lit ''Command not found: '' @ msg\<rparr>
      | Inl e \<Rightarrow> Inl e)"

section \<open>The matcher\<close>

text \<open>The values of \<open>re.IGNORECASE\<close> and \<open>re.DOTALL\<close>.\<close>

definition re_IGNORECASE :: nat where
  "re_IGNORECASE = 2"

definition re_DOTALL :: nat where
  "re_DOTALL = 16"

text \<open>
  \<open>re.search\<close> compiles the pattern, which raises \<open>re.error\<close> when it does not
  compile. A pattern that is a text cannot be used on bytes: \<open>TypeError\<close>. On a text
  it scans for the first position, from 0 up to and including the length, at which the
  compiled pattern matches; the result is that position, or \<open>None\<close>.
\<close>

definition re_search :: "('rx, 't) library \<Rightarrow> pystr \<Rightarrow> pyval \<Rightarrow> nat \<Rightarrow> py_exn + nat option" where
  "re_search L pattern string flags =
     (case re_compile L pattern flags of
        Inl e \<Rightarrow> Inl e
      | Inr rx \<Rightarrow>
          (case string of
             Bytes b \<Rightarrow> Inl TypeError
           | Str s \<Rightarrow> Inr (find (rx_match_at L rx s) [0..<Suc (length s)])))"

definition stdout_matches :: "('rx, 't) library \<Rightarrow> pyval \<Rightarrow> pystr \<Rightarrow> nat \<Rightarrow> py_exn + bool" where
  "stdout_matches L out pattern flags =
     (case re_search L pattern out flags of
        Inl e \<Rightarrow> Inl e
      | Inr m \<Rightarrow> Inr (m \<noteq> None))"

section \<open>The main function\<close>

record 't args =
  cmd :: "pystr list"
  input :: pystr
  regex :: pystr
  timeout :: 't
  dotall :: bool
  ignorecase :: bool
  require_zero_exit :: bool
  verbose :: bool

text \<open>
  What a run leaves behind: the text written to \<open>sys.stdout\<close> and to \<open>sys.stderr\<close>,
  and either the value \<open>main\<close> returns, which \<open>SystemExit\<close> makes the exit code of
  the process, or the exception that left \<open>main\<close> uncaught. The interpreter then prints
  its traceback and ends the process with exit code 1; that text is not part of
  \<open>err_stream\<close>. The two streams are the text handed to them: they are taken to
  accept it, as streams in UTF-8 do for every text that reaches them here.
\<close>

record outcome =
  out_stream :: pystr
  err_stream :: pystr
  status :: "py_exn + int"

definition exit_code :: "outcome \<Rightarrow> int" where
  "exit_code r = (case status r of Inr n \<Rightarrow> n | Inl e \<Rightarrow> 1)"

definition py_print :: "pystr \<Rightarrow> pystr \<Rightarrow> pystr" where
  "py_print s stream = stream @ s @ [10]"

definition print_all :: "pystr list \<Rightarrow> pystr \<Rightarrow> pystr" where
  "print_all ls stream = foldl (\<lambda>st s. py_print s st) stream ls"

text \<open>\<open>str\<close> of an integer, for \<open>f"Return code: {rr.returncode}"\<close>.\<close>

function dec_nat :: "nat \<Rightarrow> pystr" where
  "dec_nat n = (if n < 10 then [0x30 + n] else dec_nat (n div 10) @ [0x30 + n mod 10])"
  by pat_completeness auto
termination
  by (relation "measure id") auto

declare dec_nat.simps [simp del]

definition str_int :: "int \<Rightarrow> pystr" where
  "str_int i = (if i < 0 then 0x2D # dec_nat (nat (- i)) else dec_nat (nat i))"

text \<open>Lines 111 to 115: the flag bits.\<close>

definition regex_flags :: "'t args \<Rightarrow> nat" where
  "regex_flags a =
     (let flags = 0;
          flags = (if dotall a then flags OR re_DOTALL else flags);
          flags = (if ignorecase a then flags OR re_IGNORECASE else flags)
      in flags)"

text \<open>
  \<open>main\<close> after \<open>parse_args\<close>. \<open>warned\<close> is what line 109 has written to
  \<open>sys.stderr\<close>; the call of \<open>stdout_matches\<close> adds what the warnings of \<open>re\<close> write.
\<close>

definition main :: "('rx, 't) library \<Rightarrow> 't args \<Rightarrow> outcome" where
  "main L a =
     (case decode_argument L (input a) of
        Inl e \<Rightarrow> \<lparr>out_stream = [], err_stream = [], status = Inl e\<rparr>
      | Inr (stdin_text, warned) \<Rightarrow>
          (let flags = regex_flags a in
           case run_java L (cmd a) stdin_text (timeout a) of
             Inl e \<Rightarrow> \<lparr>out_stream = [], err_stream = warned, status = Inl e\<rparr>
           | Inr rr \<Rightarrow>
               (let out = (if verbose a then py_print (py_str (stdout rr)) [] else []) in
                if require_zero_exit a \<and> returncode rr \<noteq> 0 then
                  \<lparr>out_stream = out,
                   err_stream = print_all
                     [lit ''FAIL: Java program returned non-zero exit code.'',
                      lit ''Return code: '' @ str_int (returncode rr),
                      lit ''--- stderr ---'',
                      stderr rr,
                      lit ''--- stdout ---'',
                      py_str (stdout rr)] warned,
                   status = Inr 2\<rparr>
                else
                  (let err = warned @ re_warning L (regex a) flags in
                   case stdout_matches L (stdout rr) (regex a) flags of
                     Inl e \<Rightarrow> \<lparr>out_stream = out, err_stream = err, status = Inl e\<rparr>
                   | Inr matched \<Rightarrow>
                       if matched then
                         \<lparr>out_stream = py_print (lit ''PASS'') out, err_stream = err,
                          status = Inr 0\<rparr>
                       else
                         \<lparr>out_stream = out,
                          err_stream = print_all
                            [lit ''FAIL: stdout did not match regex.'',
                             lit ''Regex: '' @ regex a,
                             lit ''--- stdout ---'',
                             py_str (stdout rr),
                             lit ''--- stderr ---'',
                             stderr rr] err,
                          status = Inr 1\<rparr>))))"

section \<open>A library for concrete runs\<close>

text \<open>
  A regex engine for the patterns that consist of literal characters only: such a
  pattern matches at a position when its characters stand there, compared without case
  under \<open>re.IGNORECASE\<close>. It refuses every pattern with a metacharacter.
\<close>

datatype literal_rx = Literal pystr nat

definition is_meta :: "nat \<Rightarrow> bool" where
  "is_meta c = (c \<in> set (0x5C # lit ''.^$*+?{}[]|()''))"

definition literal_compile :: "pystr \<Rightarrow> nat \<Rightarrow> py_exn + literal_rx" where
  "literal_compile pattern flags =
     (if list_ex is_meta pattern then Inl (re_error (lit ''not a literal pattern''))
      else Inr (Literal pattern flags))"

definition fold_case :: "nat \<Rightarrow> nat \<Rightarrow> nat" where
  "fold_case flags c =
     (if flags AND re_IGNORECASE \<noteq> 0 \<and> 0x41 \<le> c \<and> c \<le> 0x5A then c + 0x20 else c)"

fun literal_match_at :: "literal_rx \<Rightarrow> pystr \<Rightarrow> nat \<Rightarrow> bool" where
  "literal_match_at (Literal p flags) string pos =
     (map (fold_case flags) (take (length p) (drop pos string)) = map (fold_case flags) p)"

text \<open>
  The library around a given process call: the timeout prints as \<open>2.0\<close>, the warning
  of the decoder is written as one line, and \<open>re\<close> warns of nothing.
\<close>

definition library_of ::
  "(pystr list \<Rightarrow> pystr \<Rightarrow> unit \<Rightarrow> py_exn + CompletedProcess) \<Rightarrow> (literal_rx, unit) library" where
  "library_of run =
     \<lparr>subprocess_run = run, format_float = (\<lambda>_. lit ''2.0''),
      re_compile = literal_compile, rx_match_at = literal_match_at,
      unicode_name = (\<lambda>_. None),
      show_warning = (\<lambda>msg. Inr (lit ''DeprecationWarning: '' @ msg @ [10])),
      re_warning = (\<lambda>_ _. [])\<rparr>"

text \<open>A process call that answers with a fixed result.\<close>

definition scripted :: "(py_exn + CompletedProcess) \<Rightarrow> (literal_rx, unit) library" where
  "scripted r = library_of (\<lambda>_ _ _. r)"


definition demo_args :: "unit args" where
  "demo_args =
     \<lparr>cmd = [lit ''java'', lit ''Main''], input = lit ''a'' @ [0x5C] @ lit ''nb'',
      regex = lit ''OK'', timeout = (), dotall = False, ignorecase = False,
      require_zero_exit = False, verbose = False\<rparr>"

section \<open>Properties of the process runner\<close>

lemma or_empty_None [simp]: "or_empty None = Str []"
  by (simp add: or_empty_def)

lemma or_empty_Str [simp]: "or_empty (Some (Str s)) = Str s"
  by (simp add: or_empty_def)

lemma or_empty_Bytes [simp]: "b \<noteq> [] \<Longrightarrow> or_empty (Some (Bytes b)) = Bytes b"
  by (simp add: or_empty_def)

text \<open>
  C9: every RunResult that \<open>run_java\<close> returns, from any of its three returning
  branches, has \<open>ok\<close> true exactly when \<open>returncode\<close> is 0.
\<close>

theorem run_java_ok_iff_zero:
  "run_java L java_cmd stdin_text timeout_s = Inr rr \<Longrightarrow> ok rr = (returncode rr = 0)"
  by (auto simp: run_java_def split: sum.splits py_exn.splits CompletedProcess.splits)

theorem run_java_ok_iff_zero_witness:
  "run_java (scripted (Inr (CompletedProcess 3 (lit ''out'') (lit ''err'')))) [lit ''java''] [] ()
     = Inr \<lparr>ok = False, returncode = 3, stdout = Str (lit ''out''), stderr = lit ''err''\<rparr>
   \<and> ok \<lparr>ok = False, returncode = 3, stdout = Str (lit ''out''), stderr = lit ''err''\<rparr>
     = (returncode \<lparr>ok = False, returncode = 3, stdout = Str (lit ''out''), stderr = lit ''err''\<rparr> = 0)"
proof -
  have run: "run_java (scripted (Inr (CompletedProcess 3 (lit ''out'') (lit ''err'')))) [lit ''java''] [] ()
     = Inr \<lparr>ok = False, returncode = 3, stdout = Str (lit ''out''), stderr = lit ''err''\<rparr>"
    by (simp add: run_java_def scripted_def library_of_def)
  show ?thesis
    using run run_java_ok_iff_zero [OF run] by simp
qed

section \<open>Failures of the process call\<close>

text \<open>
  The timeout branch in general: \<open>ok\<close> is false, \<open>returncode\<close> is 124, \<open>stdout\<close> is
  what the exception carries, and \<open>stderr\<close> is the message with the timeout, a newline
  and the \<open>str\<close> of the partial error output.
\<close>

lemma run_java_timeout:
  assumes "subprocess_run L java_cmd stdin_text timeout_s = Inl (TimeoutExpired e_stdout e_stderr)"
  shows "run_java L java_cmd stdin_text timeout_s =
           Inr \<lparr>ok = False, returncode = 124, stdout = or_empty e_stdout,
                stderr = lit ''Timed out after '' @ format_float L timeout_s @ lit ''s''
                         @ [10] @ py_str (or_empty e_stderr)\<rparr>"
  using assms by (simp add: run_java_def)


text \<open>
  C6, as the code has it: when the executable is not found (\<open>subprocess.run\<close> raises
  \<open>FileNotFoundError\<close>), \<open>run_java\<close> returns a RunResult with \<open>ok\<close> false,
  \<open>returncode\<close> 127, an empty \<open>stdout\<close> and the message \<open>Command not found:\<close>
  followed by the text of the exception as \<open>stderr\<close>.
\<close>

theorem run_java_not_found:
  assumes "subprocess_run L java_cmd stdin_text timeout_s = Inl (FileNotFoundError msg)"
  shows "run_java L java_cmd stdin_text timeout_s =
           Inr \<lparr>ok = False, returncode = 127, stdout = Str [],
                stderr = lit ''Command not found: '' @ msg\<rparr>"
  using assms by (simp add: run_java_def)

theorem run_java_not_found_witness:
  "run_java (scripted (Inl (FileNotFoundError (lit ''No such file or directory: java''))))
     [lit ''java''] [] () =
     Inr \<lparr>ok = False, returncode = 127, stdout = Str [],
          stderr = lit ''Command not found: No such file or directory: java''\<rparr>"
proof -
  have h: "subprocess_run (scripted (Inl (FileNotFoundError (lit ''No such file or directory: java''))))
             [lit ''java''] [] () = Inl (FileNotFoundError (lit ''No such file or directory: java''))"
    by (simp add: scripted_def library_of_def)
  show ?thesis
    using run_java_not_found [OF h] by (simp add: lit_def)
qed

text \<open>
  A first token that exists but may not be executed cannot be launched either; then
  \<open>subprocess.run\<close> raises \<open>PermissionError\<close>, which \<open>run_java\<close> does not catch: no
  RunResult is returned.
\<close>

theorem run_java_not_launchable_counterexample:
  "run_java (scripted (Inl (PermissionError (lit ''Permission denied: /etc/passwd''))))
     [lit ''/etc/passwd''] [] () =
     Inl (PermissionError (lit ''Permission denied: /etc/passwd''))"
  by (simp add: run_java_def scripted_def library_of_def)

section \<open>The matcher searches\<close>

text \<open>
  C7: for every stdout text, pattern and flag bits under which the pattern compiles, the
  matcher returns true exactly when the compiled pattern matches at some position of
  the text, which need not be its start.
\<close>

theorem stdout_matches_search:
  assumes "re_compile L pattern flags = Inr rx"
  shows "stdout_matches L (Str out) pattern flags =
           Inr (\<exists>pos. pos \<le> length out \<and> rx_match_at L rx out pos)"
proof -
  have "(find (rx_match_at L rx out) [0..<Suc (length out)] \<noteq> None) =
          (\<exists>pos. pos \<le> length out \<and> rx_match_at L rx out pos)"
    by (auto simp: find_None_iff less_Suc_eq_le simp del: upt_Suc)
  with assms show ?thesis
    by (simp add: stdout_matches_def re_search_def del: upt_Suc)
qed

theorem stdout_matches_search_witness:
  "stdout_matches (scripted (Inr (CompletedProcess 0 (lit ''xxOKyy'') []))) (Str (lit ''xxOKyy''))
     (lit ''OK'') 0 = Inr True
   \<and> literal_match_at (Literal (lit ''OK'') 0) (lit ''xxOKyy'') 2
   \<and> \<not> literal_match_at (Literal (lit ''OK'') 0) (lit ''xxOKyy'') 0"
proof -
  let ?L = "scripted (Inr (CompletedProcess 0 (lit ''xxOKyy'') []))"
  have h: "re_compile ?L (lit ''OK'') 0 = Inr (Literal (lit ''OK'') 0)"
    by code_simp
  have m: "rx_match_at ?L (Literal (lit ''OK'') 0) (lit ''xxOKyy'') 2"
    by code_simp
  have n: "\<not> literal_match_at (Literal (lit ''OK'') 0) (lit ''xxOKyy'') 0"
    by code_simp
  have l: "(2::nat) \<le> length (lit ''xxOKyy'')"
    by (simp add: lit_def)
  have "\<exists>pos. pos \<le> length (lit ''xxOKyy'') \<and> rx_match_at ?L (Literal (lit ''OK'') 0) (lit ''xxOKyy'') pos"
    using l m by blast
  then have "stdout_matches ?L (Str (lit ''xxOKyy'')) (lit ''OK'') 0 = Inr True"
    using stdout_matches_search [OF h, of "lit ''xxOKyy''"] by simp
  moreover have "literal_match_at (Literal (lit ''OK'') 0) (lit ''xxOKyy'') 2"
    using m by (simp add: scripted_def library_of_def)
  ultimately show ?thesis
    using n by simp
qed

text \<open>On bytes the matcher never returns: the pattern's error, or \<open>TypeError\<close>.\<close>

lemma stdout_matches_bytes:
  "stdout_matches L (Bytes b) pattern flags =
     (case re_compile L pattern flags of Inl e \<Rightarrow> Inl e | Inr rx \<Rightarrow> Inl TypeError)"
  by (simp add: stdout_matches_def re_search_def split: sum.splits)

section \<open>The exit-code policy of main\<close>

lemma scripted_re_warning [simp]: "re_warning (scripted r) pattern flags = []"
  by (simp add: scripted_def library_of_def)

text \<open>Once line 109 is done and the runner has returned, \<open>main\<close> is its decision.\<close>

lemma main_after_run:
  assumes "decode_argument L (input a) = Inr (stdin_text, warned)"
    and "run_java L (cmd a) stdin_text (timeout a) = Inr rr"
  shows "main L a =
     (let out = (if verbose a then py_print (py_str (stdout rr)) [] else []) in
      if require_zero_exit a \<and> returncode rr \<noteq> 0 then
        \<lparr>out_stream = out,
         err_stream = print_all
           [lit ''FAIL: Java program returned non-zero exit code.'',
            lit ''Return code: '' @ str_int (returncode rr),
            lit ''--- stderr ---'',
            stderr rr,
            lit ''--- stdout ---'',
            py_str (stdout rr)] warned,
         status = Inr 2\<rparr>
      else
        (let err = warned @ re_warning L (regex a) (regex_flags a) in
         case stdout_matches L (stdout rr) (regex a) (regex_flags a) of
           Inl e \<Rightarrow> \<lparr>out_stream = out, err_stream = err, status = Inl e\<rparr>
         | Inr matched \<Rightarrow>
             if matched then
               \<lparr>out_stream = py_print (lit ''PASS'') out, err_stream = err, status = Inr 0\<rparr>
             else
               \<lparr>out_stream = out,
                err_stream = print_all
                  [lit ''FAIL: stdout did not match regex.'',
                   lit ''Regex: '' @ regex a,
                   lit ''--- stdout ---'',
                   py_str (stdout rr),
                   lit ''--- stderr ---'',
                   stderr rr] err,
                status = Inr 1\<rparr>))"
  using assms by (simp add: main_def Let_def)

lemma print_all_six:
  "print_all [a, b, c, d, e, f] w =
     w @ a @ [10] @ b @ [10] @ c @ [10] @ d @ [10] @ e @ [10] @ f @ [10]"
  by (simp add: print_all_def py_print_def)

text \<open>
  C1: when \<open>--require-zero-exit\<close> is set and the captured exit code is not 0, the run
  writes the report of the non-zero exit code (the reason, the exit code, stderr and
  stdout) to the diagnostic stream, after the warning of line 109 if there was one, and
  the exit code of the tool is 2, whatever the regex is. The captured stdout is printed
  as \<open>print\<close> prints it: bytes, as after a timeout on POSIX, as their \<open>repr\<close>.
\<close>

theorem main_require_zero_exit:
  assumes "decode_argument L (input a) = Inr (stdin_text, warned)"
    and "run_java L (cmd a) stdin_text (timeout a) = Inr rr"
    and "require_zero_exit a"
    and "returncode rr \<noteq> 0"
  shows "main L (a\<lparr>regex := pattern\<rparr>) =
           \<lparr>out_stream = (if verbose a then py_str (stdout rr) @ [10] else []),
            err_stream =
              warned
              @ lit ''FAIL: Java program returned non-zero exit code.'' @ [10]
              @ lit ''Return code: '' @ str_int (returncode rr) @ [10]
              @ lit ''--- stderr ---'' @ [10]
              @ stderr rr @ [10]
              @ lit ''--- stdout ---'' @ [10]
              @ py_str (stdout rr) @ [10],
            status = Inr 2\<rparr>"
proof -
  have "decode_argument L (input (a\<lparr>regex := pattern\<rparr>)) = Inr (stdin_text, warned)"
    using assms(1) by simp
  moreover have "run_java L (cmd (a\<lparr>regex := pattern\<rparr>)) stdin_text (timeout (a\<lparr>regex := pattern\<rparr>)) = Inr rr"
    using assms(2) by simp
  ultimately show ?thesis
    using assms(3,4) by (simp add: main_after_run print_all_six py_print_def)
qed

theorem main_require_zero_exit_witness:
  "main (scripted (Inr (CompletedProcess 3 (lit ''xxOKyy'') (lit ''warn''))))
        (demo_args\<lparr>require_zero_exit := True, regex := lit ''OK''\<rparr>) =
     \<lparr>out_stream = [],
      err_stream = lit ''FAIL: Java program returned non-zero exit code.'' @ [10]
        @ lit ''Return code: 3'' @ [10]
        @ lit ''--- stderr ---'' @ [10] @ lit ''warn'' @ [10]
        @ lit ''--- stdout ---'' @ [10] @ lit ''xxOKyy'' @ [10],
      status = Inr 2\<rparr>
   \<and> main (scripted (Inl (TimeoutExpired (Some (Bytes (lit ''OK''))) None)))
          (demo_args\<lparr>require_zero_exit := True, regex := lit ''OK''\<rparr>) =
     \<lparr>out_stream = [],
      err_stream = lit ''FAIL: Java program returned non-zero exit code.'' @ [10]
        @ lit ''Return code: 124'' @ [10]
        @ lit ''--- stderr ---'' @ [10] @ lit ''Timed out after 2.0s'' @ [10] @ [10]
        @ lit ''--- stdout ---'' @ [10] @ [0x62, 0x27] @ lit ''OK'' @ [0x27] @ [10],
      status = Inr 2\<rparr>"
proof -
  let ?L = "scripted (Inr (CompletedProcess 3 (lit ''xxOKyy'') (lit ''warn'')))"
  let ?T = "scripted (Inl (TimeoutExpired (Some (Bytes (lit ''OK''))) None))"
  let ?a = "demo_args\<lparr>require_zero_exit := True\<rparr>"
  let ?s = "lit ''a'' @ [10] @ lit ''b''"
  let ?rr = "\<lparr>ok = False, returncode = 3, stdout = Str (lit ''xxOKyy''), stderr = lit ''warn''\<rparr>"
  let ?tt = "\<lparr>ok = False, returncode = 124, stdout = Bytes (lit ''OK''),
              stderr = lit ''Timed out after 2.0s'' @ [10]\<rparr>"
  have h1: "decode_argument ?L (input ?a) = Inr (?s, [])"
    by code_simp
  have h2: "run_java ?L (cmd ?a) ?s (timeout ?a) = Inr ?rr"
    by (simp add: run_java_def scripted_def library_of_def)
  have t1: "decode_argument ?T (input ?a) = Inr (?s, [])"
    by code_simp
  have t2: "run_java ?T (cmd ?a) ?s (timeout ?a) = Inr ?tt"
    by code_simp
  have h3: "require_zero_exit ?a"
    by simp
  have h4: "returncode ?rr \<noteq> 0" "returncode ?tt \<noteq> 0"
    by simp_all
  have s: "str_int 3 = lit ''3''" "str_int 124 = lit ''124''"
    by code_simp+
  have r: "bytes_repr [79, 75] = [0x62, 0x27, 79, 75, 0x27]"
    by code_simp
  show ?thesis
    using main_require_zero_exit [OF h1 h2 h3 h4(1), of "lit ''OK''"]
      main_require_zero_exit [OF t1 t2 h3 h4(2), of "lit ''OK''"]
    by (simp add: s r lit_def demo_args_def)
qed

text \<open>
  C2: when the branch of the non-zero exit code is not taken and the matcher returns
  true on the captured stdout, the run prints \<open>PASS\<close> to the primary output stream
  (after the echo of stdout under \<open>--verbose\<close>) and the exit code of the tool is 0.
  Nothing but warnings of line 109 and of \<open>re\<close> reaches the diagnostic stream.
\<close>

theorem main_pass:
  assumes "decode_argument L (input a) = Inr (stdin_text, warned)"
    and "run_java L (cmd a) stdin_text (timeout a) = Inr rr"
    and "\<not> (require_zero_exit a \<and> returncode rr \<noteq> 0)"
    and "stdout_matches L (stdout rr) (regex a) (regex_flags a) = Inr True"
  shows "main L a =
           \<lparr>out_stream = (if verbose a then py_str (stdout rr) @ [10] else []) @ lit ''PASS'' @ [10],
            err_stream = warned @ re_warning L (regex a) (regex_flags a),
            status = Inr 0\<rparr>"
  using assms by (auto simp add: main_after_run py_print_def Let_def)

theorem main_pass_witness:
  "main (scripted (Inr (CompletedProcess 3 (lit ''xxOKyy'') (lit ''warn'')))) demo_args =
     \<lparr>out_stream = lit ''PASS'' @ [10], err_stream = [], status = Inr 0\<rparr>"
proof -
  let ?L = "scripted (Inr (CompletedProcess 3 (lit ''xxOKyy'') (lit ''warn'')))"
  let ?rr = "\<lparr>ok = False, returncode = 3, stdout = Str (lit ''xxOKyy''), stderr = lit ''warn''\<rparr>"
  have h1: "decode_argument ?L (input demo_args) = Inr (lit ''a'' @ [10] @ lit ''b'', [])"
    by code_simp
  have h2: "run_java ?L (cmd demo_args) (lit ''a'' @ [10] @ lit ''b'') (timeout demo_args) = Inr ?rr"
    by (simp add: run_java_def scripted_def library_of_def)
  have h3: "\<not> (require_zero_exit demo_args \<and> returncode ?rr \<noteq> 0)"
    by (simp add: demo_args_def)
  have h4: "stdout_matches ?L (stdout ?rr) (regex demo_args) (regex_flags demo_args) = Inr True"
    by code_simp
  show ?thesis
    using main_pass [OF h1 h2 h3 h4] by (simp add: demo_args_def)
qed

text \<open>
  C3: when the branch of the non-zero exit code is not taken and the matcher returns
  false on the captured stdout, the run writes the report of the mismatch (the reason,
  the regex, stdout and stderr) to the diagnostic stream, after the warnings of line 109
  and of \<open>re\<close> if there were any, and the exit code of the tool is 1.
\<close>

theorem main_mismatch:
  assumes "decode_argument L (input a) = Inr (stdin_text, warned)"
    and "run_java L (cmd a) stdin_text (timeout a) = Inr rr"
    and "\<not> (require_zero_exit a \<and> returncode rr \<noteq> 0)"
    and "stdout_matches L (stdout rr) (regex a) (regex_flags a) = Inr False"
  shows "main L a =
           \<lparr>out_stream = (if verbose a then py_str (stdout rr) @ [10] else []),
            err_stream =
              warned @ re_warning L (regex a) (regex_flags a)
              @ lit ''FAIL: stdout did not match regex.'' @ [10]
              @ lit ''Regex: '' @ regex a @ [10]
              @ lit ''--- stdout ---'' @ [10]
              @ py_str (stdout rr) @ [10]
              @ lit ''--- stderr ---'' @ [10]
              @ stderr rr @ [10],
            status = Inr 1\<rparr>"
  using assms by (auto simp add: main_after_run print_all_six py_print_def Let_def)

theorem main_mismatch_witness:
  "main (scripted (Inr (CompletedProcess 0 (lit ''no'') (lit ''warn''))))
        (demo_args\<lparr>input := lit ''a'' @ [0x5C] @ lit ''db''\<rparr>) =
     \<lparr>out_stream = [],
      err_stream = lit ''DeprecationWarning: invalid escape sequence '' @ [0x27, 0x5C]
        @ lit ''d'' @ [0x27, 10]
        @ lit ''FAIL: stdout did not match regex.'' @ [10] @ lit ''Regex: OK'' @ [10]
        @ lit ''--- stdout ---'' @ [10] @ lit ''no'' @ [10]
        @ lit ''--- stderr ---'' @ [10] @ lit ''warn'' @ [10],
      status = Inr 1\<rparr>"
proof -
  let ?L = "scripted (Inr (CompletedProcess 0 (lit ''no'') (lit ''warn'')))"
  let ?a = "demo_args\<lparr>input := lit ''a'' @ [0x5C] @ lit ''db''\<rparr>"
  let ?s = "lit ''a'' @ [0x5C] @ lit ''db''"
  let ?w = "lit ''DeprecationWarning: invalid escape sequence '' @ [0x27, 0x5C] @ lit ''d'' @ [0x27, 10]"
  let ?rr = "\<lparr>ok = True, returncode = 0, stdout = Str (lit ''no''), stderr = lit ''warn''\<rparr>"
  have h1: "decode_argument ?L (input ?a) = Inr (?s, ?w)"
    by code_simp
  have h2: "run_java ?L (cmd ?a) ?s (timeout ?a) = Inr ?rr"
    by (simp add: run_java_def scripted_def library_of_def)
  have h3: "\<not> (require_zero_exit ?a \<and> returncode ?rr \<noteq> 0)"
    by (simp add: demo_args_def)
  have h4: "stdout_matches ?L (stdout ?rr) (regex ?a) (regex_flags ?a) = Inr False"
    by code_simp
  show ?thesis
    using main_mismatch [OF h1 h2 h3 h4] by (simp add: demo_args_def lit_def)
qed

lemma run_java_failed_launch:
  assumes "subprocess_run L java_cmd stdin_text timeout_s = Inl x"
    and "x = TimeoutExpired e_stdout e_stderr \<or> x = FileNotFoundError msg"
  shows "\<exists>rr. run_java L java_cmd stdin_text timeout_s = Inr rr
           \<and> returncode rr = (if x = FileNotFoundError msg then 127 else 124)"
  using assms by (auto simp: run_java_def)

text \<open>
  C4, as the code has it: when the child times out or the executable is not found, the
  RunResult carries the code 124 or 127, and \<open>main\<close> goes on to its usual decision:
  the exit code of the tool is 2 under \<open>--require-zero-exit\<close>; otherwise it is 0 or 1
  as the regex matches the captured stdout or not, and when the matcher raises, as it
  does on the bytes that a timeout on POSIX leaves as stdout, the exception leaves
  \<open>main\<close> and the exit code is 1. It is never 124 or 127.
\<close>

theorem main_exit_after_failed_launch:
  assumes "decode_argument L (input a) = Inr (stdin_text, warned)"
    and "subprocess_run L (cmd a) stdin_text (timeout a) = Inl x"
    and "x = TimeoutExpired e_stdout e_stderr \<or> x = FileNotFoundError msg"
  shows "\<exists>rr. run_java L (cmd a) stdin_text (timeout a) = Inr rr
           \<and> returncode rr = (if x = FileNotFoundError msg then 127 else 124)
           \<and> status (main L a) =
               (if require_zero_exit a then Inr 2
                else case stdout_matches L (stdout rr) (regex a) (regex_flags a) of
                       Inl e \<Rightarrow> Inl e
                     | Inr matched \<Rightarrow> Inr (if matched then 0 else 1))
           \<and> (exit_code (main L a) = 0 \<or> exit_code (main L a) = 1 \<or> exit_code (main L a) = 2)"
proof -
  from run_java_failed_launch [OF assms(2,3)] obtain rr where
    rr: "run_java L (cmd a) stdin_text (timeout a) = Inr rr"
    and rc: "returncode rr = (if x = FileNotFoundError msg then 127 else 124)"
    by blast
  from rc have nz: "returncode rr \<noteq> 0"
    by (simp split: if_splits)
  have st: "status (main L a) =
               (if require_zero_exit a then Inr 2
                else case stdout_matches L (stdout rr) (regex a) (regex_flags a) of
                       Inl e \<Rightarrow> Inl e
                     | Inr matched \<Rightarrow> Inr (if matched then 0 else 1))"
    using nz by (simp add: main_after_run [OF assms(1) rr] Let_def split: sum.splits)
  then have "exit_code (main L a) = 0 \<or> exit_code (main L a) = 1 \<or> exit_code (main L a) = 2"
    by (simp add: exit_code_def split: sum.splits)
  with rr rc st show ?thesis
    by blast
qed

theorem main_exit_after_failed_launch_witness:
  "status (main (scripted (Inl (TimeoutExpired (Some (Bytes (lit ''OK''))) None))) demo_args)
     = Inl TypeError
   \<and> exit_code (main (scripted (Inl (TimeoutExpired (Some (Bytes (lit ''OK''))) None))) demo_args)
     = 1
   \<and> status (main (scripted (Inl (FileNotFoundError (lit ''No such file''))))
                  (demo_args\<lparr>require_zero_exit := True\<rparr>)) = Inr 2"
proof -
  let ?T = "scripted (Inl (TimeoutExpired (Some (Bytes (lit ''OK''))) None))"
  let ?F = "scripted (Inl (FileNotFoundError (lit ''No such file'')))"
  let ?a = "demo_args\<lparr>require_zero_exit := True\<rparr>"
  let ?s = "lit ''a'' @ [10] @ lit ''b''"
  have t1: "decode_argument ?T (input demo_args) = Inr (?s, [])"
    by code_simp
  have t2: "subprocess_run ?T (cmd demo_args) ?s (timeout demo_args)
              = Inl (TimeoutExpired (Some (Bytes (lit ''OK''))) None)"
    by (simp add: scripted_def library_of_def)
  have t3: "TimeoutExpired (Some (Bytes (lit ''OK''))) None
              = TimeoutExpired (Some (Bytes (lit ''OK''))) None
            \<or> TimeoutExpired (Some (Bytes (lit ''OK''))) None = FileNotFoundError []"
    by simp
  from main_exit_after_failed_launch [OF t1 t2 t3] obtain rr where
    rr: "run_java ?T (cmd demo_args) ?s (timeout demo_args) = Inr rr"
    and st: "status (main ?T demo_args) =
               (if require_zero_exit demo_args then Inr 2
                else case stdout_matches ?T (stdout rr) (regex demo_args) (regex_flags demo_args) of
                       Inl e \<Rightarrow> Inl e
                     | Inr matched \<Rightarrow> Inr (if matched then 0 else 1))"
    by blast
  have "run_java ?T (cmd demo_args) ?s (timeout demo_args)
          = Inr \<lparr>ok = False, returncode = 124, stdout = Bytes (lit ''OK''),
                 stderr = lit ''Timed out after 2.0s'' @ [10]\<rparr>"
    by code_simp
  with rr have out: "stdout rr = Bytes (lit ''OK'')"
    by auto
  have "stdout_matches ?T (Bytes (lit ''OK'')) (regex demo_args) (regex_flags demo_args)
          = Inl TypeError"
    by code_simp
  with st out have timed_out: "status (main ?T demo_args) = Inl TypeError"
    by (simp add: demo_args_def)
  then have code: "exit_code (main ?T demo_args) = 1"
    by (simp add: exit_code_def)
  have f1: "decode_argument ?F (input ?a) = Inr (?s, [])"
    by code_simp
  have f2: "subprocess_run ?F (cmd ?a) ?s (timeout ?a) = Inl (FileNotFoundError (lit ''No such file''))"
    by (simp add: scripted_def library_of_def)
  have f3: "FileNotFoundError (lit ''No such file'') = TimeoutExpired None None
            \<or> FileNotFoundError (lit ''No such file'') = FileNotFoundError (lit ''No such file'')"
    by simp
  from main_exit_after_failed_launch [OF f1 f2 f3]
  have "status (main ?F ?a) = Inr 2"
    by auto
  with timed_out code show ?thesis
    by simp
qed

text \<open>
  A timeout under \<open>--require-zero-exit\<close> ends the tool with exit code 2, and a missing
  executable without that flag ends it with exit code 1.
\<close>

theorem main_exit_124_127_counterexample:
  "exit_code (main (scripted (Inl (TimeoutExpired None None)))
                   (demo_args\<lparr>require_zero_exit := True\<rparr>)) = 2
   \<and> exit_code (main (scripted (Inl (TimeoutExpired None None)))
                     (demo_args\<lparr>require_zero_exit := True\<rparr>)) \<noteq> 124
   \<and> exit_code (main (scripted (Inl (FileNotFoundError (lit ''No such file or directory''))))
                     demo_args) = 1
   \<and> exit_code (main (scripted (Inl (FileNotFoundError (lit ''No such file or directory''))))
                     demo_args) \<noteq> 127"
proof -
  have "exit_code (main (scripted (Inl (TimeoutExpired None None)))
                        (demo_args\<lparr>require_zero_exit := True\<rparr>)) = 2"
    by code_simp
  moreover
  have "exit_code (main (scripted (Inl (FileNotFoundError (lit ''No such file or directory''))))
                        demo_args) = 1"
    by code_simp
  ultimately show ?thesis
    by simp
qed

section \<open>The child is run on the decoded text\<close>

text \<open>
  The process call of a run is made on the text that line 109 has decoded: the run is
  the one in which the process call answers, whatever it is asked, what it answers for
  the command, that text as the child's input, and the timeout.
\<close>

lemma stdout_matches_subprocess_run [simp]:
  "stdout_matches (L\<lparr>subprocess_run := f\<rparr>) out pattern flags = stdout_matches L out pattern flags"
  by (simp add: stdout_matches_def re_search_def split: sum.splits pyval.splits)

lemma decode_argument_subprocess_run [simp]:
  "decode_argument (L\<lparr>subprocess_run := f\<rparr>) s = decode_argument L s"
  by (simp add: decode_argument_def split: sum.splits prod.splits option.splits)



section \<open>What the decoding of the input does\<close>

subsection \<open>The encoder\<close>


lemma utf8_encode_char_no_backslash:
  assumes "ch \<noteq> 0x5C" and "utf8_encode_char ch = Inr bs"
  shows "0x5C \<notin> set bs"
  using assms by (auto simp: utf8_encode_char_def split: if_splits)

lemma utf8_encode_no_backslash:
  "0x5C \<notin> set s \<Longrightarrow> utf8_encode s = Inr bs \<Longrightarrow> 0x5C \<notin> set bs"
proof (induction s arbitrary: bs)
  case Nil
  then show ?case by simp
next
  case (Cons ch s)
  from Cons.prems(2) obtain x y where
    x: "utf8_encode_char ch = Inr x" and y: "utf8_encode s = Inr y" and bs: "bs = x @ y"
    by (auto split: sum.splits)
  from Cons.prems(1) x have "0x5C \<notin> set x"
    by (auto dest: utf8_encode_char_no_backslash)
  moreover from Cons.prems(1) y have "0x5C \<notin> set y"
    by (auto dest: Cons.IH)
  ultimately show ?case
    by (simp add: bs)
qed

subsection \<open>One step of the decoder\<close>

lemma decode_not_escape:
  "c \<noteq> 0x5C \<Longrightarrow>
   unicode_escape_decode names (c # s) = write_char c (unicode_escape_decode names s)"
  by simp







lemma write_char_then_decode:
  "write_char ch (then_decode q w r) = then_decode (ch # q) w r"
  by (simp add: write_char_def then_decode_def split: sum.splits)


lemma decode_plain:
  "0x5C \<notin> set pb \<Longrightarrow>
   unicode_escape_decode names (pb @ bs) = then_decode pb None (unicode_escape_decode names bs)"
proof (induction pb)
  case Nil
  show ?case
    by (simp add: then_decode_def split: sum.splits del: unicode_escape_decode.simps)
next
  case (Cons c pb)
  then have "unicode_escape_decode names ((c # pb) @ bs) =
               write_char c (then_decode pb None (unicode_escape_decode names bs))"
    by (simp add: decode_not_escape del: unicode_escape_decode.simps)
  then show ?case
    by (simp only: write_char_then_decode)
qed

subsection \<open>Escapes that end inside a text end there whatever follows\<close>










subsection \<open>The decoding of the argument\<close>

lemma decode_input_no_backslash:
  assumes "0x5C \<notin> set s"
  shows "decode_input names s =
           (case utf8_encode s of Inl e \<Rightarrow> Inl e | Inr bs \<Rightarrow> Inr (bs, None))"
proof (cases "utf8_encode s")
  case (Inl e)
  then show ?thesis
    by (simp add: decode_input_def)
next
  case (Inr bs)
  with assms have "0x5C \<notin> set bs"
    by (rule utf8_encode_no_backslash)
  from decode_plain [OF this, of names "[]"]
  have "unicode_escape_decode names bs = Inr (bs, None)"
    by (simp add: then_decode_def)
  with Inr show ?thesis
    by (simp add: decode_input_def)
qed






end
